theory Spec2Isabelle
  imports Main
begin

section \<open>JavaScript values\<close>

text \<open>
  The handlers of \<^verbatim>\<open>MessageNamespace\<close> read loosely typed fields of the inbound
  payload and combine them with \<^verbatim>\<open>||\<close>. The scalar fields are modelled as JavaScript
  values with JavaScript's truthiness; \<^verbatim>\<open>a || b\<close> is \<open>a\<close> when \<open>a\<close> is truthy and
  \<open>b\<close> otherwise.
\<close>

datatype jsval = JUndefined | JNull | JBool bool | JNum int | JStr string

fun truthy :: "jsval \<Rightarrow> bool" where
  "truthy JUndefined = False"
| "truthy JNull = False"
| "truthy (JBool b) = b"
| "truthy (JNum n) = (n \<noteq> 0)"
| "truthy (JStr s) = (s \<noteq> [])"

definition js_or :: "jsval \<Rightarrow> jsval \<Rightarrow> jsval" where
  "js_or a b = (if truthy a then a else b)"

text \<open>
  Template literals such as \<^verbatim>\<open>`user#${userId}`\<close> render a number in decimal and the
  value \<^verbatim>\<open>undefined\<close> as the word itself.
\<close>

definition digit_char :: "nat \<Rightarrow> char" where
  "digit_char d = ''0123456789'' ! d"

fun show_nat :: "nat \<Rightarrow> string" where
  "show_nat n = (if n < 10 then [digit_char n] else show_nat (n div 10) @ [digit_char (n mod 10)])"

declare show_nat.simps [simp del]

definition show_id :: "nat option \<Rightarrow> string" where
  "show_id i = (case i of None \<Rightarrow> ''undefined'' | Some n \<Rightarrow> show_nat n)"

definition user_channel :: "nat option \<Rightarrow> string" where
  "user_channel i = ''user#'' @ show_id i"

definition convo_channel :: "nat \<Rightarrow> string" where
  "convo_channel i = ''convo#'' @ show_nat i"

section \<open>Data\<close>

text \<open>A sender or receiver: \<^verbatim>\<open>{ id, name, avatarUrl? }\<close>.\<close>

record user =
  user_id :: nat
  user_name :: string
  avatarUrl :: "string option"

text \<open>
  An attachment object. Only its \<^verbatim>\<open>id\<close> is read or written by the handlers; the rest of
  the object is carried along unchanged.
\<close>

record attachment =
  att_id :: "nat option"
  att_body :: string

text \<open>The payload of a \<^verbatim>\<open>NEW_MESSAGE\<close> event.\<close>

record message_in =
  m_sender :: user
  m_message :: jsval
  m_messageText :: jsval
  m_createdAt :: jsval
  m_conversationId :: nat
  m_canReply :: jsval
  m_attachment :: "attachment option"

text \<open>The payload of a \<^verbatim>\<open>CREATE_NEW_MESSAGE\<close> event.\<close>

record create_data =
  d_sender :: user
  d_message :: jsval
  d_messageText :: jsval
  d_createdAt :: jsval
  d_canReply :: jsval
  d_attachment :: "attachment option"
  d_classroomId :: nat
  d_receivers :: "user list"

text \<open>
  The object literal \<^verbatim>\<open>broadcastMessage\<close>. The property \<^verbatim>\<open>id\<close> does not exist until
  the handler assigns it after the message was inserted: \<open>bm_id\<close> is \<open>None\<close> until then.
\<close>

record broadcast_message =
  bm_sender :: user
  bm_message :: jsval
  bm_messageText :: jsval
  bm_createdAt :: jsval
  bm_conversationId :: nat
  bm_canReply :: jsval
  bm_attachment :: "attachment option"
  bm_id :: "nat option"

text \<open>The argument of \<^verbatim>\<open>messageService.insertMessage\<close>.\<close>

record message_row =
  sender_id :: nat
  conversation_id :: nat
  message :: jsval
  message_text :: jsval
  attachment_id :: "nat option"

text \<open>The first argument of \<^verbatim>\<open>messageService.createNewConversation\<close>.\<close>

record conversation_row =
  convo_type :: string
  creator_id :: nat
  classroom_id :: nat

text \<open>
  The conversation object that \<^verbatim>\<open>createNewConversation\<close> resolves to. The handlers read
  its \<^verbatim>\<open>id\<close> and assign its \<^verbatim>\<open>conversation_name\<close>.
\<close>

record conversation =
  convo_id :: nat
  convo_row :: conversation_row
  participant_ids :: "nat option list"
  conversation_name :: "string option"

section \<open>Collaborators\<close>

text \<open>
  The services and the socket registry live outside the handlers' file. They are
  parameters of the model: each service call either rejects or resolves to a value.
  \<open>getTwoUsersConvoId\<close> resolves to \<open>None\<close> for \<^verbatim>\<open>null\<close> (no conversation).
  \<open>sockets_in\<close> gives the sockets that \<^verbatim>\<open>Object.values(this.nsp.in(channel).sockets)\<close>
  enumerates; in socket.io 2.x that is the socket table of the whole namespace, whatever
  the channel.
\<close>

datatype rejection = Rejected string

record env =
  insertFile :: "attachment \<Rightarrow> rejection + nat"
  insertMessage :: "message_row \<Rightarrow> rejection + nat"
  createNewConversation :: "conversation_row \<Rightarrow> nat option list \<Rightarrow> rejection + conversation"
  getTwoUsersConvoId :: "nat \<Rightarrow> nat option \<Rightarrow> nat \<Rightarrow> rejection + nat option"
  sockets_in :: "string \<Rightarrow> nat list"

section \<open>Observable events\<close>

text \<open>
  A handler run is the list of its effects in the order they happen. \<open>Called\<close> is an
  invocation \<^verbatim>\<open>fn(err, msg)\<close> of a callback, with the arguments as they are at the call;
  \<open>Emit\<close> is \<^verbatim>\<open>this.nsp.in(channel).emit(event, payload)\<close>, with the payload as it is
  at the call. The service events record the call; its outcome is the collaborator's.
  \<^verbatim>\<open>console.log\<close> and \<^verbatim>\<open>debug\<close> are left out.

  \<^verbatim>\<open>this.nsp.in(channel)\<close> is not a pure read. In socket.io 2.x, the version whose
  namespace has the \<^verbatim>\<open>sockets\<close> table the handlers enumerate, \<^verbatim>\<open>in(name)\<close> appends
  the name to the pending rooms of the namespace unless it is there already, and returns
  the namespace; \<^verbatim>\<open>emit\<close> addresses all pending rooms and resets them. \<open>NspIn\<close> is a
  call \<^verbatim>\<open>this.nsp.in(channel)\<close> that is not followed by \<^verbatim>\<open>emit\<close>: it leaves the
  channel pending.
\<close>

datatype callback = SenderAck | DefaultNoop

text \<open>
  The second parameter \<^verbatim>\<open>fn\<close> of a handler: absent, a falsy value, or a function.
\<close>

datatype fn_arg = FnUndefined | FnNull | FnFunction callback

datatype error_obj = DefaultError

datatype socket_event = NEW_MESSAGE | CREATE_NEW_MESSAGE | FIRST_TIME_MESSAGE

datatype payload =
    NewMessagePayload broadcast_message
  | FirstTimePayload broadcast_message conversation

datatype event =
    Called callback "error_obj option" "broadcast_message option"
  | InsertFile attachment
  | InsertMessage message_row
  | GetTwoUsersConvoId nat "nat option" nat
  | CreateNewConversation conversation_row "nat option list"
  | NspIn string
  | Join nat string
  | Emit string socket_event payload

fun is_emit :: "event \<Rightarrow> bool" where
  "is_emit (Emit ch ev p) = True"
| "is_emit other = False"

fun payload_message :: "payload \<Rightarrow> broadcast_message" where
  "payload_message (NewMessagePayload bm) = bm"
| "payload_message (FirstTimePayload bm c) = bm"

text \<open>The message representations that leave the server with an event.\<close>

fun event_messages :: "event \<Rightarrow> broadcast_message list" where
  "event_messages (Called cb err (Some bm)) = [bm]"
| "event_messages (Emit ch ev p) = [payload_message p]"
| "event_messages other = []"

section \<open>The handlers\<close>

text \<open>\<^verbatim>\<open>if (fn) fn(err, msg)\<close>\<close>

definition call_fn :: "fn_arg \<Rightarrow> error_obj option \<Rightarrow> broadcast_message option \<Rightarrow> event list" where
  "call_fn fn err msg = (case fn of FnFunction cb \<Rightarrow> [Called cb err msg] | _ \<Rightarrow> [])"

text \<open>
  \<^verbatim>\<open>async _newMessageHandler(message, fn = function (err, msg) {})\<close>: the default
  parameter replaces an absent \<^verbatim>\<open>fn\<close> only. The attachment object is shared by
  \<^verbatim>\<open>message\<close> and \<^verbatim>\<open>broadcastMessage\<close>, so the assignment
  \<^verbatim>\<open>message.attachment.id = newFile.id\<close> shows in the emitted message too.
\<close>

definition newMessageHandler :: "env \<Rightarrow> message_in \<Rightarrow> fn_arg \<Rightarrow> event list" where
  "newMessageHandler e msg fn0 =
    (let fn = (case fn0 of FnUndefined \<Rightarrow> FnFunction DefaultNoop | _ \<Rightarrow> fn0);
         broadcastMessage = \<lparr>
           bm_sender = m_sender msg,
           bm_message = js_or (m_message msg) (m_messageText msg),
           bm_messageText = m_messageText msg,
           bm_createdAt = m_createdAt msg,
           bm_conversationId = m_conversationId msg,
           bm_canReply = js_or (m_canReply msg) (JBool True),
           bm_attachment = m_attachment msg,
           bm_id = None \<rparr>;
         catch = call_fn fn (Some DefaultError) None;
         insert_and_emit = (\<lambda>att.
           let row = \<lparr>
                 sender_id = user_id (m_sender msg),
                 conversation_id = m_conversationId msg,
                 message = js_or (m_message msg) (m_messageText msg),
                 message_text = m_messageText msg,
                 attachment_id = (case att of None \<Rightarrow> None | Some a \<Rightarrow> att_id a) \<rparr>
           in InsertMessage row #
              (case insertMessage e row of
                 Inl err \<Rightarrow> catch
               | Inr newId \<Rightarrow>
                   [Emit (convo_channel (bm_conversationId broadcastMessage)) NEW_MESSAGE
                      (NewMessagePayload
                         (broadcastMessage\<lparr>bm_attachment := att, bm_id := Some newId\<rparr>))]))
     in call_fn fn None (Some broadcastMessage) @
        (case m_attachment msg of
           None \<Rightarrow> insert_and_emit None
         | Some a \<Rightarrow>
             InsertFile a #
             (case insertFile e a of
                Inl err \<Rightarrow> catch
              | Inr fileId \<Rightarrow> insert_and_emit (Some (a\<lparr>att_id := Some fileId\<rparr>)))))"

text \<open>
  \<^verbatim>\<open>allUserChannels.forEach(...)\<close>: for every user channel, the call
  \<^verbatim>\<open>this.nsp.in(channel)\<close>, which leaves the channel pending, and then the join of
  every socket of \<^verbatim>\<open>.sockets\<close> to the channel of the new conversation.
\<close>

definition join_all :: "env \<Rightarrow> nat option list \<Rightarrow> string \<Rightarrow> event list" where
  "join_all e allUserIds newConvoChannel =
     concat (map (\<lambda>channel. NspIn channel #
                               map (\<lambda>s. Join s newConvoChannel) (sockets_in e channel))
                 (map user_channel allUserIds))"

definition createNewGroupMessageHandler :: "env \<Rightarrow> create_data \<Rightarrow> fn_arg \<Rightarrow> event list" where
  "createNewGroupMessageHandler e data fn =
    (let sender = d_sender data;
         receiverIds = map user_id (d_receivers data);
         allUserIds = Some (user_id sender) # map Some receiverIds;
         catch = call_fn fn (Some DefaultError) None;
         row = \<lparr> convo_type = ''group'', creator_id = user_id sender,
                 classroom_id = d_classroomId data \<rparr>
     in CreateNewConversation row allUserIds #
        (case createNewConversation e row allUserIds of
           Inl err \<Rightarrow> catch
         | Inr created \<Rightarrow>
             (let newConvo = created\<lparr>conversation_name := Some ''New Group''\<rparr>;
                  newConvoId = convo_id newConvo;
                  newConvoChannel = convo_channel newConvoId;
                  broadcastMessage = \<lparr>
                    bm_sender = sender,
                    bm_message = js_or (d_message data) (d_messageText data),
                    bm_messageText = d_messageText data,
                    bm_createdAt = d_createdAt data,
                    bm_conversationId = newConvoId,
                    bm_canReply = js_or (d_canReply data) (JBool True),
                    bm_attachment = d_attachment data,
                    bm_id = None \<rparr>;
                  mrow = \<lparr>
                    sender_id = user_id sender,
                    conversation_id = newConvoId,
                    message = js_or (d_message data) (d_messageText data),
                    message_text = d_messageText data,
                    attachment_id = (case d_attachment data of None \<Rightarrow> None | Some a \<Rightarrow> att_id a) \<rparr>
              in join_all e allUserIds newConvoChannel @
                 call_fn fn None (Some broadcastMessage) @
                 InsertMessage mrow #
                 (case insertMessage e mrow of
                    Inl err \<Rightarrow> catch
                  | Inr newId \<Rightarrow>
                      [Emit newConvoChannel FIRST_TIME_MESSAGE
                         (FirstTimePayload (broadcastMessage\<lparr>bm_id := Some newId\<rparr>) newConvo)]))))"

text \<open>
  \<^verbatim>\<open>receiverIds[0]\<close> is \<^verbatim>\<open>undefined\<close> for an empty list, and \<^verbatim>\<open>receivers[0].id\<close>
  then throws inside the \<^verbatim>\<open>try\<close>. When a conversation exists the handler returns
  \<^verbatim>\<open>this._newMessageHandler({...})\<close>, a call with one argument: \<^verbatim>\<open>fn\<close> is not
  passed on.
\<close>

definition createNewSingleMessageHandler :: "env \<Rightarrow> create_data \<Rightarrow> fn_arg \<Rightarrow> event list" where
  "createNewSingleMessageHandler e data fn =
    (let sender = d_sender data;
         receivers = d_receivers data;
         catch = call_fn fn (Some DefaultError) None;
         receiverIds = map user_id receivers;
         receiverId0 = (case receiverIds of [] \<Rightarrow> None | i # _ \<Rightarrow> Some i)
     in GetTwoUsersConvoId (user_id sender) receiverId0 (d_classroomId data) #
        (case getTwoUsersConvoId e (user_id sender) receiverId0 (d_classroomId data) of
           Inl err \<Rightarrow> catch
         | Inr (Some convoIdIfExist) \<Rightarrow>
             newMessageHandler e \<lparr>
               m_sender = sender,
               m_message = d_message data,
               m_messageText = d_messageText data,
               m_createdAt = d_createdAt data,
               m_conversationId = convoIdIfExist,
               m_canReply = d_canReply data,
               m_attachment = d_attachment data \<rparr> FnUndefined
         | Inr None \<Rightarrow>
             (let allUserIds = [Some (user_id sender), receiverId0];
                  row = \<lparr> convo_type = ''single'', creator_id = user_id sender,
                          classroom_id = d_classroomId data \<rparr>
              in CreateNewConversation row allUserIds #
                 (case createNewConversation e row allUserIds of
                    Inl err \<Rightarrow> catch
                  | Inr newConvo \<Rightarrow>
                      (let newConvoId = convo_id newConvo;
                           newConvoChannel = convo_channel newConvoId;
                           broadcastMessage = \<lparr>
                             bm_sender = sender,
                             bm_message = js_or (d_message data) (d_messageText data),
                             bm_messageText = d_messageText data,
                             bm_createdAt = d_createdAt data,
                             bm_conversationId = newConvoId,
                             bm_canReply = js_or (d_canReply data) (JBool True),
                             bm_attachment = d_attachment data,
                             bm_id = None \<rparr>;
                           mrow = \<lparr>
                             sender_id = user_id sender,
                             conversation_id = newConvoId,
                             message = js_or (d_message data) (d_messageText data),
                             message_text = d_messageText data,
                             attachment_id =
                               (case d_attachment data of None \<Rightarrow> None | Some a \<Rightarrow> att_id a) \<rparr>
                       in join_all e allUserIds newConvoChannel @
                          call_fn fn None (Some broadcastMessage) @
                          InsertMessage mrow #
                          (case insertMessage e mrow of
                             Inl err \<Rightarrow> catch
                           | Inr newId \<Rightarrow>
                               (case receivers of
                                  [] \<Rightarrow> catch
                                | r # _ \<Rightarrow>
                                    [Emit (user_channel (Some (user_id sender))) FIRST_TIME_MESSAGE
                                       (FirstTimePayload (broadcastMessage\<lparr>bm_id := Some newId\<rparr>)
                                          (newConvo\<lparr>conversation_name := Some (user_name r)\<rparr>)),
                                     Emit (user_channel (Some (user_id r))) FIRST_TIME_MESSAGE
                                       (FirstTimePayload (broadcastMessage\<lparr>bm_id := Some newId\<rparr>)
                                          (newConvo\<lparr>conversation_name := Some (user_name sender)\<rparr>))])))))))"

definition createNewMessageHandler :: "env \<Rightarrow> create_data \<Rightarrow> fn_arg \<Rightarrow> event list" where
  "createNewMessageHandler e data fn =
     (if length (d_receivers data) = 1
      then createNewSingleMessageHandler e data fn
      else createNewGroupMessageHandler e data fn)"

section \<open>The rooms a broadcast reaches\<close>

text \<open>
  \<^verbatim>\<open>Namespace.prototype.in\<close>:
  \<^verbatim>\<open>if (!~this.rooms.indexOf(name)) this.rooms.push(name)\<close>.
\<close>

definition add_room :: "string \<Rightarrow> string list \<Rightarrow> string list" where
  "add_room name rooms = (if name \<in> set rooms then rooms else rooms @ [name])"

text \<open>
  The broadcasts of a run that starts with the given pending rooms: for each
  \<^verbatim>\<open>emit\<close>, the rooms it is addressed to, the event name and the payload.
  \<^verbatim>\<open>Namespace.prototype.emit\<close> takes \<^verbatim>\<open>this.rooms.slice(0)\<close>, sets
  \<^verbatim>\<open>this.rooms = []\<close> and broadcasts to the rooms taken.
\<close>

fun addressed :: "string list \<Rightarrow> event list \<Rightarrow> (string list \<times> socket_event \<times> payload) list" where
  "addressed rooms [] = []"
| "addressed rooms (NspIn ch # evs) = addressed (add_room ch rooms) evs"
| "addressed rooms (Emit ch ev p # evs) = (add_room ch rooms, ev, p) # addressed [] evs"
| "addressed rooms (other # evs) = addressed rooms evs"

section \<open>Names for the terms the handlers build\<close>

text \<open>
  The row that the two \<^verbatim>\<open>CREATE_NEW_MESSAGE\<close> handlers pass to \<^verbatim>\<open>insertMessage\<close>
  for a conversation id, and the row they pass to \<^verbatim>\<open>createNewConversation\<close>.
\<close>

definition sent_row :: "create_data \<Rightarrow> nat \<Rightarrow> message_row" where
  "sent_row data convoId = \<lparr>
     sender_id = user_id (d_sender data),
     conversation_id = convoId,
     message = js_or (d_message data) (d_messageText data),
     message_text = d_messageText data,
     attachment_id = (case d_attachment data of None \<Rightarrow> None | Some a \<Rightarrow> att_id a) \<rparr>"

definition new_convo_row :: "string \<Rightarrow> create_data \<Rightarrow> conversation_row" where
  "new_convo_row ty data =
     \<lparr> convo_type = ty, creator_id = user_id (d_sender data), classroom_id = d_classroomId data \<rparr>"

text \<open>\<^verbatim>\<open>receiverIds[0]\<close>, the lookup call and its outcome.\<close>

definition first_receiver_id :: "create_data \<Rightarrow> nat option" where
  "first_receiver_id data = (case d_receivers data of [] \<Rightarrow> None | r # _ \<Rightarrow> Some (user_id r))"

definition lookup_call :: "create_data \<Rightarrow> event" where
  "lookup_call data =
     GetTwoUsersConvoId (user_id (d_sender data)) (first_receiver_id data) (d_classroomId data)"

definition lookup_result :: "env \<Rightarrow> create_data \<Rightarrow> rejection + nat option" where
  "lookup_result e data =
     getTwoUsersConvoId e (user_id (d_sender data)) (first_receiver_id data) (d_classroomId data)"

text \<open>The object that the single handler hands to \<^verbatim>\<open>_newMessageHandler\<close>.\<close>

definition delegated_message :: "create_data \<Rightarrow> nat \<Rightarrow> message_in" where
  "delegated_message data convoId = \<lparr>
     m_sender = d_sender data,
     m_message = d_message data,
     m_messageText = d_messageText data,
     m_createdAt = d_createdAt data,
     m_conversationId = convoId,
     m_canReply = d_canReply data,
     m_attachment = d_attachment data \<rparr>"

fun is_lookup :: "event \<Rightarrow> bool" where
  "is_lookup (GetTwoUsersConvoId s r c) = True"
| "is_lookup other = False"

fun is_create :: "event \<Rightarrow> bool" where
  "is_create (CreateNewConversation row ids) = True"
| "is_create other = False"

section \<open>Example runs\<close>

definition alice :: user where
  "alice = \<lparr>user_id = 1, user_name = ''A'', avatarUrl = None\<rparr>"

definition bob :: user where
  "bob = \<lparr>user_id = 2, user_name = ''B'', avatarUrl = None\<rparr>"

definition carol :: user where
  "carol = \<lparr>user_id = 3, user_name = ''C'', avatarUrl = None\<rparr>"

definition photo :: attachment where
  "photo = \<lparr>att_id = None, att_body = ''photo.png''\<rparr>"

text \<open>
  Every service resolves and no conversation exists yet; user 1 has one live socket and
  user 2 has two.
\<close>

definition env_ok :: env where
  "env_ok = \<lparr>
     insertFile = (\<lambda>a. Inr 40),
     insertMessage = (\<lambda>row. Inr 100),
     createNewConversation = (\<lambda>row ids. Inr \<lparr>convo_id = 7, convo_row = row,
        participant_ids = ids, conversation_name = None\<rparr>),
     getTwoUsersConvoId = (\<lambda>s r c. Inr None),
     sockets_in = (\<lambda>channel. if channel = ''user#1'' then [11]
                              else if channel = ''user#2'' then [21, 22] else []) \<rparr>"

text \<open>The pair already has conversation 9.\<close>

definition env_known :: env where
  "env_known = env_ok\<lparr>getTwoUsersConvoId := (\<lambda>s r c. Inr (Some 9))\<rparr>"

definition env_known_insert_rejects :: env where
  "env_known_insert_rejects = env_known\<lparr>insertMessage := (\<lambda>row. Inl (Rejected ''ER_LOCK''))\<rparr>"

definition env_known_file_rejects :: env where
  "env_known_file_rejects = env_known\<lparr>insertFile := (\<lambda>a. Inl (Rejected ''ER_DUP''))\<rparr>"

definition data_single :: create_data where
  "data_single = \<lparr>
     d_sender = alice, d_message = JStr ''hi'', d_messageText = JUndefined,
     d_createdAt = JStr ''2020-05-01'', d_canReply = JBool False, d_attachment = Some photo,
     d_classroomId = 5, d_receivers = [bob] \<rparr>"

definition data_group :: create_data where
  "data_group = data_single\<lparr>d_receivers := [bob, carol]\<rparr>"

definition data_empty :: create_data where
  "data_empty = data_single\<lparr>d_receivers := []\<rparr>"

definition msg_direct :: message_in where
  "msg_direct = \<lparr>
     m_sender = alice, m_message = JStr ''hi'', m_messageText = JUndefined,
     m_createdAt = JStr ''2020-05-01'', m_conversationId = 9, m_canReply = JBool False,
     m_attachment = Some photo \<rparr>"

definition bm_example :: "nat \<Rightarrow> attachment option \<Rightarrow> nat option \<Rightarrow> broadcast_message" where
  "bm_example convoId att i = \<lparr>
     bm_sender = alice, bm_message = JStr ''hi'', bm_messageText = JUndefined,
     bm_createdAt = JStr ''2020-05-01'', bm_conversationId = convoId, bm_canReply = JBool True,
     bm_attachment = att, bm_id = i \<rparr>"

definition row_example :: "nat \<Rightarrow> nat option \<Rightarrow> message_row" where
  "row_example convoId att = \<lparr>
     sender_id = 1, conversation_id = convoId, message = JStr ''hi'', message_text = JUndefined,
     attachment_id = att \<rparr>"

definition convo_example :: "string \<Rightarrow> nat option list \<Rightarrow> string option \<Rightarrow> conversation" where
  "convo_example ty ids name = \<lparr>
     convo_id = 7,
     convo_row = \<lparr>convo_type = ty, creator_id = 1, classroom_id = 5\<rparr>,
     participant_ids = ids, conversation_name = name \<rparr>"

lemmas example_defs =
  alice_def bob_def carol_def photo_def env_ok_def env_known_def env_known_insert_rejects_def
  env_known_file_rejects_def data_single_def data_group_def data_empty_def msg_direct_def
  bm_example_def row_example_def convo_example_def

lemmas handler_defs =
  newMessageHandler_def createNewSingleMessageHandler_def createNewGroupMessageHandler_def
  createNewMessageHandler_def call_fn_def join_all_def js_or_def Let_def
  user_channel_def convo_channel_def show_id_def show_nat.simps digit_char_def

lemmas term_defs =
  sent_row_def new_convo_row_def first_receiver_id_def lookup_call_def lookup_result_def
  delegated_message_def

section \<open>The shape of a run\<close>

lemma single_lookup_rejected:
  "lookup_result e data = Inl err \<Longrightarrow>
   createNewSingleMessageHandler e data fn = lookup_call data # call_fn fn (Some DefaultError) None"
  by (cases "d_receivers data")
     (simp_all add: createNewSingleMessageHandler_def lookup_result_def lookup_call_def
        first_receiver_id_def Let_def)

lemma single_existing:
  "lookup_result e data = Inr (Some convoId) \<Longrightarrow>
   createNewSingleMessageHandler e data fn =
     lookup_call data # newMessageHandler e (delegated_message data convoId) FnUndefined"
  by (cases "d_receivers data")
     (simp_all add: createNewSingleMessageHandler_def lookup_result_def lookup_call_def
        first_receiver_id_def delegated_message_def Let_def)

lemma example_direct_run:
  "newMessageHandler env_ok msg_direct (FnFunction SenderAck) =
     [Called SenderAck None (Some (bm_example 9 (Some photo) None)),
      InsertFile photo,
      InsertMessage (row_example 9 (Some 40)),
      Emit ''convo#9'' NEW_MESSAGE
        (NewMessagePayload (bm_example 9 (Some (photo\<lparr>att_id := Some 40\<rparr>)) (Some 100)))]"
  by (simp add: handler_defs example_defs)

lemma example_single_run:
  "createNewSingleMessageHandler env_ok data_single (FnFunction SenderAck) =
     [GetTwoUsersConvoId 1 (Some 2) 5,
      CreateNewConversation \<lparr>convo_type = ''single'', creator_id = 1, classroom_id = 5\<rparr>
        [Some 1, Some 2],
      NspIn ''user#1'', Join 11 ''convo#7'',
      NspIn ''user#2'', Join 21 ''convo#7'', Join 22 ''convo#7'',
      Called SenderAck None (Some (bm_example 7 (Some photo) None)),
      InsertMessage (row_example 7 None),
      Emit ''user#1'' FIRST_TIME_MESSAGE
        (FirstTimePayload (bm_example 7 (Some photo) (Some 100))
           (convo_example ''single'' [Some 1, Some 2] (Some ''B''))),
      Emit ''user#2'' FIRST_TIME_MESSAGE
        (FirstTimePayload (bm_example 7 (Some photo) (Some 100))
           (convo_example ''single'' [Some 1, Some 2] (Some ''A'')))]"
  by (simp add: handler_defs example_defs)

lemma example_group_run:
  "createNewGroupMessageHandler env_ok data_group (FnFunction SenderAck) =
     [CreateNewConversation \<lparr>convo_type = ''group'', creator_id = 1, classroom_id = 5\<rparr>
        [Some 1, Some 2, Some 3],
      NspIn ''user#1'', Join 11 ''convo#7'',
      NspIn ''user#2'', Join 21 ''convo#7'', Join 22 ''convo#7'',
      NspIn ''user#3'',
      Called SenderAck None (Some (bm_example 7 (Some photo) None)),
      InsertMessage (row_example 7 None),
      Emit ''convo#7'' FIRST_TIME_MESSAGE
        (FirstTimePayload (bm_example 7 (Some photo) (Some 100))
           (convo_example ''group'' [Some 1, Some 2, Some 3] (Some ''New Group'')))]"
  by (simp add: handler_defs example_defs)

section \<open>The reply flag\<close>

text \<open>
  C1. On the existing-conversation path, the new single-conversation path and the new
  group-conversation path, every message representation that leaves the server (given to
  a callback or emitted) has \<open>canReply = true\<close> whenever the inbound \<open>canReply\<close> is
  absent or falsy, and also when it is a boolean: \<^verbatim>\<open>canReply || true\<close> is \<open>true\<close> for
  every such input, an explicit \<open>false\<close> included, and truthy for every input at all.
\<close>

theorem canReply_defaults_to_true:
  assumes "\<not> truthy c \<or> (\<exists>b. c = JBool b)"
  shows "js_or c (JBool True) = JBool True \<and>
    truthy (js_or v (JBool True)) \<and>
    (\<forall>ev \<in> set (newMessageHandler e (msg\<lparr>m_canReply := c\<rparr>) fn).
       \<forall>bm \<in> set (event_messages ev). bm_canReply bm = JBool True) \<and>
    (\<forall>ev \<in> set (createNewSingleMessageHandler e (data\<lparr>d_canReply := c\<rparr>) fn).
       \<forall>bm \<in> set (event_messages ev). bm_canReply bm = JBool True) \<and>
    (\<forall>ev \<in> set (createNewGroupMessageHandler e (data\<lparr>d_canReply := c\<rparr>) fn).
       \<forall>bm \<in> set (event_messages ev). bm_canReply bm = JBool True)"
proof -
  let ?d = "data\<lparr>d_canReply := c\<rparr>"
  have or_true: "js_or c (JBool True) = JBool True"
    using assms by (auto simp: js_or_def)
  have always_truthy: "truthy (js_or v (JBool True))"
    by (simp add: js_or_def)
  have existing: "\<forall>ev \<in> set (newMessageHandler e' m fn').
       \<forall>bm \<in> set (event_messages ev). bm_canReply bm = JBool True"
    if "m_canReply m = c" for e' m fn'
    using that or_true
    by (auto simp: newMessageHandler_def call_fn_def Let_def
             split: fn_arg.splits option.splits sum.splits)
  have direct: "\<forall>ev \<in> set (newMessageHandler e (msg\<lparr>m_canReply := c\<rparr>) fn).
       \<forall>bm \<in> set (event_messages ev). bm_canReply bm = JBool True"
    by (rule existing) simp
  have single: "\<forall>ev \<in> set (createNewSingleMessageHandler e ?d fn).
       \<forall>bm \<in> set (event_messages ev). bm_canReply bm = JBool True"
  proof (cases "lookup_result e ?d")
    case (Inl err)
    then show ?thesis
      by (auto simp: single_lookup_rejected lookup_call_def call_fn_def split: fn_arg.splits)
  next
    case (Inr found)
    show ?thesis
    proof (cases found)
      case None
      with Inr or_true show ?thesis
        by (cases "d_receivers data")
           (auto simp: createNewSingleMessageHandler_def lookup_result_def first_receiver_id_def
              call_fn_def join_all_def Let_def
              split: fn_arg.splits sum.splits)
    next
      case (Some convoId)
      with Inr have "createNewSingleMessageHandler e ?d fn =
          lookup_call ?d # newMessageHandler e (delegated_message ?d convoId) FnUndefined"
        by (simp add: single_existing)
      moreover have "m_canReply (delegated_message ?d convoId) = c"
        by (simp add: delegated_message_def)
      ultimately show ?thesis
        using existing by (simp add: lookup_call_def)
    qed
  qed
  have group: "\<forall>ev \<in> set (createNewGroupMessageHandler e ?d fn).
       \<forall>bm \<in> set (event_messages ev). bm_canReply bm = JBool True"
    using or_true
    by (auto simp: createNewGroupMessageHandler_def call_fn_def join_all_def Let_def
             split: fn_arg.splits option.splits sum.splits)
  from or_true always_truthy direct single group show ?thesis by blast
qed

text \<open>
  An explicit \<open>false\<close> on the three paths: every message of the three example runs
  carries \<open>true\<close>.
\<close>

theorem canReply_defaults_to_true_witness:
  "\<not> truthy (JBool False) \<and>
   js_or (JBool False) (JBool True) = JBool True \<and>
   m_canReply msg_direct = JBool False \<and> d_canReply data_single = JBool False \<and>
   map bm_canReply (concat (map event_messages
      (newMessageHandler env_ok msg_direct (FnFunction SenderAck)))) = [JBool True, JBool True] \<and>
   map bm_canReply (concat (map event_messages
      (createNewSingleMessageHandler env_ok data_single (FnFunction SenderAck))))
     = [JBool True, JBool True, JBool True] \<and>
   map bm_canReply (concat (map event_messages
      (createNewGroupMessageHandler env_ok data_group (FnFunction SenderAck))))
     = [JBool True, JBool True]"
proof -
  have falsy: "\<not> truthy (JBool False) \<or> (\<exists>b. JBool False = JBool b)"
    by simp
  have same: "msg_direct\<lparr>m_canReply := JBool False\<rparr> = msg_direct"
    "data_single\<lparr>d_canReply := JBool False\<rparr> = data_single"
    by (simp_all add: msg_direct_def data_single_def)
  note flag = canReply_defaults_to_true [OF falsy, of "JBool False" env_ok msg_direct
      "FnFunction SenderAck" data_single]
  from flag have "js_or (JBool False) (JBool True) = JBool True"
    by blast
  then show ?thesis
    by (simp add: example_direct_run example_single_run example_group_run)
       (simp add: example_defs)
qed

section \<open>Acknowledgment before persistence\<close>

text \<open>
  C4. On the existing-conversation path the callback in effect (the one passed, or the
  default function when none is passed) is called first, with a message representation
  that has no \<open>id\<close>; the call of \<^verbatim>\<open>insertMessage\<close> comes later in the run, and
  every broadcast of the run directly follows an \<^verbatim>\<open>insertMessage\<close> call that resolved
  and carries the id it resolved to. A falsy \<^verbatim>\<open>fn\<close> other than \<^verbatim>\<open>undefined\<close> leaves
  no callback to call.
\<close>

theorem ack_before_commit:
  assumes "fn \<noteq> FnNull"
  shows "\<exists>cb bm rest.
     newMessageHandler e msg fn = Called cb None (Some bm) # rest \<and>
     cb = (case fn of FnFunction f \<Rightarrow> f | _ \<Rightarrow> DefaultNoop) \<and>
     bm_id bm = None \<and>
     ((m_attachment msg = None \<or> (\<exists>a fileId. m_attachment msg = Some a \<and> insertFile e a = Inr fileId))
        \<longrightarrow> (\<exists>row. InsertMessage row \<in> set rest)) \<and>
     (\<forall>row newId. InsertMessage row \<in> set rest \<and> insertMessage e row = Inr newId \<longrightarrow>
        (\<exists>pre p. rest = pre @ [InsertMessage row, Emit (convo_channel (m_conversationId msg)) NEW_MESSAGE p]
           \<and> bm_id (payload_message p) = Some newId)) \<and>
     (\<forall>ch ev p. Emit ch ev p \<in> set (newMessageHandler e msg fn) \<longrightarrow>
        (\<exists>pre row newId. rest = pre @ [InsertMessage row, Emit ch ev p] \<and>
           insertMessage e row = Inr newId \<and> bm_id (payload_message p) = Some newId))"
  using assms
  by (cases fn; cases "m_attachment msg")
     (auto simp: newMessageHandler_def call_fn_def Let_def
           split: sum.splits)

theorem ack_before_commit_witness:
  "FnFunction SenderAck \<noteq> FnNull \<and>
   insertFile env_ok photo = Inr 40 \<and>
   insertMessage env_ok (row_example 9 (Some 40)) = Inr 100 \<and>
   (\<exists>rest. newMessageHandler env_ok msg_direct (FnFunction SenderAck) =
      Called SenderAck None (Some (bm_example 9 (Some photo) None)) # rest \<and>
      bm_id (bm_example 9 (Some photo) None) = None \<and>
      InsertMessage (row_example 9 (Some 40)) \<in> set rest \<and>
      (\<exists>pre p. rest = pre @ [InsertMessage (row_example 9 (Some 40)), Emit ''convo#9'' NEW_MESSAGE p]
         \<and> bm_id (payload_message p) = Some 100))"
proof -
  have given: "FnFunction SenderAck \<noteq> FnNull"
    by simp
  from ack_before_commit [OF given, of env_ok msg_direct]
  obtain cb bm rest where
    run: "newMessageHandler env_ok msg_direct (FnFunction SenderAck) = Called cb None (Some bm) # rest"
    and later: "\<forall>row newId. InsertMessage row \<in> set rest \<and> insertMessage env_ok row = Inr newId \<longrightarrow>
        (\<exists>pre p. rest = pre @ [InsertMessage row,
            Emit (convo_channel (m_conversationId msg_direct)) NEW_MESSAGE p]
           \<and> bm_id (payload_message p) = Some newId)"
    by blast
  from run have rest: "rest = [InsertFile photo, InsertMessage (row_example 9 (Some 40)),
      Emit ''convo#9'' NEW_MESSAGE
        (NewMessagePayload (bm_example 9 (Some (photo\<lparr>att_id := Some 40\<rparr>)) (Some 100)))]"
    and head: "cb = SenderAck" "bm = bm_example 9 (Some photo) None"
    by (simp_all add: example_direct_run)
  have stored: "insertMessage env_ok (row_example 9 (Some 40)) = Inr 100"
    and filed: "insertFile env_ok photo = Inr 40"
    by (simp_all add: env_ok_def)
  have channel: "convo_channel (m_conversationId msg_direct) = ''convo#9''"
    by (simp add: msg_direct_def convo_channel_def show_nat.simps digit_char_def)
  have member: "InsertMessage (row_example 9 (Some 40)) \<in> set rest"
    by (simp add: rest)
  with later stored channel
  have "\<exists>pre p. rest = pre @ [InsertMessage (row_example 9 (Some 40)), Emit ''convo#9'' NEW_MESSAGE p]
         \<and> bm_id (payload_message p) = Some 100"
    by metis
  with run head member given stored filed show ?thesis
    by (simp add: bm_example_def)
qed

section \<open>Dispatch on the number of receivers\<close>

lemma single_first_event:
  "hd (createNewSingleMessageHandler e data fn) = lookup_call data"
  by (cases "d_receivers data")
     (simp_all add: createNewSingleMessageHandler_def lookup_call_def first_receiver_id_def Let_def)

lemma group_run:
  "createNewGroupMessageHandler e data fn =
     CreateNewConversation (new_convo_row ''group'' data)
       (Some (user_id (d_sender data)) # map Some (map user_id (d_receivers data))) #
     (case createNewConversation e (new_convo_row ''group'' data)
             (Some (user_id (d_sender data)) # map Some (map user_id (d_receivers data))) of
        Inl err \<Rightarrow> call_fn fn (Some DefaultError) None
      | Inr created \<Rightarrow>
          join_all e (Some (user_id (d_sender data)) # map Some (map user_id (d_receivers data)))
            (convo_channel (convo_id created)) @
          call_fn fn None (Some \<lparr>
            bm_sender = d_sender data,
            bm_message = js_or (d_message data) (d_messageText data),
            bm_messageText = d_messageText data,
            bm_createdAt = d_createdAt data,
            bm_conversationId = convo_id created,
            bm_canReply = js_or (d_canReply data) (JBool True),
            bm_attachment = d_attachment data,
            bm_id = None \<rparr>) @
          InsertMessage (sent_row data (convo_id created)) #
          (case insertMessage e (sent_row data (convo_id created)) of
             Inl err \<Rightarrow> call_fn fn (Some DefaultError) None
           | Inr newId \<Rightarrow>
               [Emit (convo_channel (convo_id created)) FIRST_TIME_MESSAGE
                  (FirstTimePayload \<lparr>
                      bm_sender = d_sender data,
                      bm_message = js_or (d_message data) (d_messageText data),
                      bm_messageText = d_messageText data,
                      bm_createdAt = d_createdAt data,
                      bm_conversationId = convo_id created,
                      bm_canReply = js_or (d_canReply data) (JBool True),
                      bm_attachment = d_attachment data,
                      bm_id = Some newId \<rparr>
                    (created\<lparr>conversation_name := Some ''New Group''\<rparr>))]))"
  by (simp add: createNewGroupMessageHandler_def sent_row_def new_convo_row_def Let_def
        split: sum.splits)

text \<open>
  C6. With exactly one receiver \<^verbatim>\<open>createNewMessageHandler\<close> runs the single handler,
  whose first step is the lookup of an existing conversation; with two or more receivers
  it runs the group handler, whose first step creates a conversation of type group.
\<close>

theorem dispatch_by_receiver_count:
  "(length (d_receivers data) = 1 \<longrightarrow>
      createNewMessageHandler e data fn = createNewSingleMessageHandler e data fn \<and>
      hd (createNewMessageHandler e data fn) = lookup_call data) \<and>
   (2 \<le> length (d_receivers data) \<longrightarrow>
      createNewMessageHandler e data fn = createNewGroupMessageHandler e data fn \<and>
      hd (createNewMessageHandler e data fn) =
        CreateNewConversation (new_convo_row ''group'' data)
          (Some (user_id (d_sender data)) # map Some (map user_id (d_receivers data))))"
  by (simp add: createNewMessageHandler_def single_first_event group_run)

theorem dispatch_by_receiver_count_witness:
  "length (d_receivers data_single) = 1 \<and>
   createNewMessageHandler env_ok data_single (FnFunction SenderAck) =
     createNewSingleMessageHandler env_ok data_single (FnFunction SenderAck) \<and>
   hd (createNewMessageHandler env_ok data_single (FnFunction SenderAck)) =
     GetTwoUsersConvoId 1 (Some 2) 5 \<and>
   2 \<le> length (d_receivers data_group) \<and>
   createNewMessageHandler env_ok data_group (FnFunction SenderAck) =
     createNewGroupMessageHandler env_ok data_group (FnFunction SenderAck) \<and>
   hd (createNewMessageHandler env_ok data_group (FnFunction SenderAck)) =
     CreateNewConversation \<lparr>convo_type = ''group'', creator_id = 1, classroom_id = 5\<rparr>
       [Some 1, Some 2, Some 3]"
proof -
  have one: "length (d_receivers data_single) = 1"
    and many: "2 \<le> length (d_receivers data_group)"
    by (simp_all add: data_single_def data_group_def)
  have lookup: "lookup_call data_single = GetTwoUsersConvoId 1 (Some 2) 5"
    by (simp add: term_defs example_defs)
  have creation: "CreateNewConversation (new_convo_row ''group'' data_group)
      (Some (user_id (d_sender data_group)) # map Some (map user_id (d_receivers data_group))) =
     CreateNewConversation \<lparr>convo_type = ''group'', creator_id = 1, classroom_id = 5\<rparr>
       [Some 1, Some 2, Some 3]"
    by (simp add: term_defs example_defs)
  note single = dispatch_by_receiver_count [of data_single env_ok "FnFunction SenderAck",
      THEN conjunct1, rule_format, OF one, unfolded lookup]
  note group = dispatch_by_receiver_count [of data_group env_ok "FnFunction SenderAck",
      THEN conjunct2, rule_format, OF many, unfolded creation]
  from one many single group show ?thesis
    by blast
qed

section \<open>A new conversation between two users\<close>

lemma single_new:
  assumes "d_receivers data = r # others" and "lookup_result e data = Inr None"
  shows "createNewSingleMessageHandler e data fn =
     lookup_call data #
     CreateNewConversation (new_convo_row ''single'' data)
       [Some (user_id (d_sender data)), Some (user_id r)] #
     (case createNewConversation e (new_convo_row ''single'' data)
             [Some (user_id (d_sender data)), Some (user_id r)] of
        Inl err \<Rightarrow> call_fn fn (Some DefaultError) None
      | Inr newConvo \<Rightarrow>
          join_all e [Some (user_id (d_sender data)), Some (user_id r)]
            (convo_channel (convo_id newConvo)) @
          call_fn fn None (Some \<lparr>
            bm_sender = d_sender data,
            bm_message = js_or (d_message data) (d_messageText data),
            bm_messageText = d_messageText data,
            bm_createdAt = d_createdAt data,
            bm_conversationId = convo_id newConvo,
            bm_canReply = js_or (d_canReply data) (JBool True),
            bm_attachment = d_attachment data,
            bm_id = None \<rparr>) @
          InsertMessage (sent_row data (convo_id newConvo)) #
          (case insertMessage e (sent_row data (convo_id newConvo)) of
             Inl err \<Rightarrow> call_fn fn (Some DefaultError) None
           | Inr newId \<Rightarrow>
               [Emit (user_channel (Some (user_id (d_sender data)))) FIRST_TIME_MESSAGE
                  (FirstTimePayload \<lparr>
                      bm_sender = d_sender data,
                      bm_message = js_or (d_message data) (d_messageText data),
                      bm_messageText = d_messageText data,
                      bm_createdAt = d_createdAt data,
                      bm_conversationId = convo_id newConvo,
                      bm_canReply = js_or (d_canReply data) (JBool True),
                      bm_attachment = d_attachment data,
                      bm_id = Some newId \<rparr>
                    (newConvo\<lparr>conversation_name := Some (user_name r)\<rparr>)),
                Emit (user_channel (Some (user_id r))) FIRST_TIME_MESSAGE
                  (FirstTimePayload \<lparr>
                      bm_sender = d_sender data,
                      bm_message = js_or (d_message data) (d_messageText data),
                      bm_messageText = d_messageText data,
                      bm_createdAt = d_createdAt data,
                      bm_conversationId = convo_id newConvo,
                      bm_canReply = js_or (d_canReply data) (JBool True),
                      bm_attachment = d_attachment data,
                      bm_id = Some newId \<rparr>
                    (newConvo\<lparr>conversation_name := Some (user_name (d_sender data))\<rparr>))]))"
  using assms
  by (simp add: createNewSingleMessageHandler_def lookup_result_def lookup_call_def
        first_receiver_id_def sent_row_def new_convo_row_def Let_def
        split: sum.splits)

lemma filter_emit_call_fn [simp]: "filter is_emit (call_fn fn err m) = []"
  by (simp add: call_fn_def split: fn_arg.splits)

lemma filter_emit_join_all [simp]: "filter is_emit (join_all e ids ch) = []"
  by (induction ids) (simp_all add: join_all_def)

lemma is_emit_lookup_call [simp]: "\<not> is_emit (lookup_call data)"
  by (simp add: lookup_call_def)

text \<open>
  The two \<^verbatim>\<open>emit\<close> calls of such a run name the sender's channel, with the receiver's
  name as \<open>conversation_name\<close>, and then the receiver's channel, with the sender's name.
  Which rooms each call reaches is \<open>addressed\<close>, below.
\<close>

lemma single_emit_calls:
  assumes one: "d_receivers data = [r]"
    and absent: "getTwoUsersConvoId e (user_id (d_sender data)) (Some (user_id r))
        (d_classroomId data) = Inr None"
    and created: "createNewConversation e (new_convo_row ''single'' data)
        [Some (user_id (d_sender data)), Some (user_id r)] = Inr newConvo"
    and stored: "insertMessage e (sent_row data (convo_id newConvo)) = Inr newId"
  shows "\<exists>bm.
    filter is_emit (createNewMessageHandler e data fn) =
      [Emit (user_channel (Some (user_id (d_sender data)))) FIRST_TIME_MESSAGE
         (FirstTimePayload bm (newConvo\<lparr>conversation_name := Some (user_name r)\<rparr>)),
       Emit (user_channel (Some (user_id r))) FIRST_TIME_MESSAGE
         (FirstTimePayload bm (newConvo\<lparr>conversation_name := Some (user_name (d_sender data))\<rparr>))]
    \<and> bm_id bm = Some newId \<and> bm_conversationId bm = convo_id newConvo"
proof -
  from one have "createNewMessageHandler e data fn = createNewSingleMessageHandler e data fn"
    by (simp add: createNewMessageHandler_def)
  moreover from one absent have "lookup_result e data = Inr None"
    by (simp add: lookup_result_def first_receiver_id_def)
  ultimately show ?thesis
    using created stored by (simp add: single_new [OF one])
qed

lemma add_room_member [simp]: "name \<in> set (add_room name rooms)"
  by (simp add: add_room_def)

lemma add_room_keeps [simp]: "name \<in> set rooms \<Longrightarrow> name \<in> set (add_room other rooms)"
  by (simp add: add_room_def)

lemma add_room_present [simp]: "name \<in> set rooms \<Longrightarrow> add_room name rooms = rooms"
  by (simp add: add_room_def)

lemma addressed_call_fn [simp]:
  "addressed rooms (call_fn fn err m @ evs) = addressed rooms evs"
  by (simp add: call_fn_def split: fn_arg.splits)

lemma addressed_joins [simp]:
  "addressed rooms (map (\<lambda>s. Join s ch) sockets @ evs) = addressed rooms evs"
  by (induction sockets) simp_all

lemma addressed_join_all [simp]:
  "addressed rooms (join_all e ids ch @ evs) =
     addressed (foldl (\<lambda>pending i. add_room (user_channel i) pending) rooms ids) evs"
  by (induction ids arbitrary: rooms) (simp_all add: join_all_def)

text \<open>
  The rooms the two broadcasts reach. The loop over the user channels has left the
  sender's and the receiver's channel pending, so the first broadcast, whose
  \<open>conversation_name\<close> is the receiver's name, goes to both channels (and to whatever was
  pending when the run began); only the second goes to the receiver's channel alone.
\<close>

lemma single_new_addressed:
  assumes one: "d_receivers data = [r]"
    and absent: "getTwoUsersConvoId e (user_id (d_sender data)) (Some (user_id r))
        (d_classroomId data) = Inr None"
    and created: "createNewConversation e (new_convo_row ''single'' data)
        [Some (user_id (d_sender data)), Some (user_id r)] = Inr newConvo"
    and stored: "insertMessage e (sent_row data (convo_id newConvo)) = Inr newId"
  shows "\<exists>bm.
    addressed rooms (createNewMessageHandler e data fn) =
      [(add_room (user_channel (Some (user_id r)))
          (add_room (user_channel (Some (user_id (d_sender data)))) rooms),
        FIRST_TIME_MESSAGE,
        FirstTimePayload bm (newConvo\<lparr>conversation_name := Some (user_name r)\<rparr>)),
       ([user_channel (Some (user_id r))],
        FIRST_TIME_MESSAGE,
        FirstTimePayload bm (newConvo\<lparr>conversation_name := Some (user_name (d_sender data))\<rparr>))]
    \<and> bm_id bm = Some newId"
proof -
  from one have "createNewMessageHandler e data fn = createNewSingleMessageHandler e data fn"
    by (simp add: createNewMessageHandler_def)
  moreover from one absent have "lookup_result e data = Inr None"
    by (simp add: lookup_result_def first_receiver_id_def)
  ultimately show ?thesis
    using created stored
    by (simp add: single_new [OF one] lookup_call_def) (simp add: add_room_def)
qed

text \<open>
  C7. The example of the specification: sender A (id 1) sends to the single receiver B
  (id 2), no conversation exists, every service resolves and no room is pending at the
  start. There are two \<^verbatim>\<open>FIRST_TIME_MESSAGE\<close> broadcasts, but the first, with
  \<open>conversation_name\<close> B, is addressed to \<^verbatim>\<open>user#1\<close> and to \<^verbatim>\<open>user#2\<close>: the
  receiver's channel gets the payload with the receiver's own name and then the payload
  with the sender's name.
\<close>

theorem first_broadcast_reaches_receiver_channel:
  "addressed [] (createNewMessageHandler env_ok data_single (FnFunction SenderAck)) =
     [([''user#1'', ''user#2''], FIRST_TIME_MESSAGE,
       FirstTimePayload (bm_example 7 (Some photo) (Some 100))
         (convo_example ''single'' [Some 1, Some 2] (Some ''B''))),
      ([''user#2''], FIRST_TIME_MESSAGE,
       FirstTimePayload (bm_example 7 (Some photo) (Some 100))
         (convo_example ''single'' [Some 1, Some 2] (Some ''A'')))]"
  by (simp add: handler_defs example_defs add_room_def)

section \<open>A new group conversation\<close>

lemma filter_lookup_call_fn [simp]: "filter is_lookup (call_fn fn err m) = []"
  by (simp add: call_fn_def split: fn_arg.splits)

lemma filter_lookup_join_all [simp]: "filter is_lookup (join_all e ids ch) = []"
  by (induction ids) (simp_all add: join_all_def)

lemma filter_create_call_fn [simp]: "filter is_create (call_fn fn err m) = []"
  by (simp add: call_fn_def split: fn_arg.splits)

lemma filter_create_join_all [simp]: "filter is_create (join_all e ids ch) = []"
  by (induction ids) (simp_all add: join_all_def)

lemma group_lookups: "filter is_lookup (createNewGroupMessageHandler e data fn) = []"
  by (simp add: group_run split: sum.splits)

lemma group_creates:
  "filter is_create (createNewGroupMessageHandler e data fn) =
     [CreateNewConversation (new_convo_row ''group'' data)
        (Some (user_id (d_sender data)) # map Some (map user_id (d_receivers data)))]"
  by (simp add: group_run split: sum.splits)

lemma group_emits:
  assumes "createNewConversation e (new_convo_row ''group'' data)
        (Some (user_id (d_sender data)) # map Some (map user_id (d_receivers data))) = Inr created"
    and "insertMessage e (sent_row data (convo_id created)) = Inr newId"
  shows "\<exists>bm. filter is_emit (createNewGroupMessageHandler e data fn) =
      [Emit (convo_channel (convo_id created)) FIRST_TIME_MESSAGE
         (FirstTimePayload bm (created\<lparr>conversation_name := Some ''New Group''\<rparr>))]
     \<and> bm_id bm = Some newId \<and> bm_conversationId bm = convo_id created"
  using assms by (simp add: group_run)

text \<open>
  C8. A send to two or more receivers never looks an existing conversation up; its first
  step, and its only conversation write, is the creation of a conversation of type group
  for the sender and all receivers. When the creation and the insertion of the message
  resolve, the run broadcasts exactly once: \<^verbatim>\<open>FIRST_TIME_MESSAGE\<close> to the channel of
  the new conversation, carrying the message with its id and the conversation object
  named \<open>New Group\<close>.
\<close>

theorem group_send_creates_new_group:
  assumes "2 \<le> length (d_receivers data)"
  shows "filter is_lookup (createNewMessageHandler e data fn) = [] \<and>
    filter is_create (createNewMessageHandler e data fn) =
      [CreateNewConversation (new_convo_row ''group'' data)
         (Some (user_id (d_sender data)) # map Some (map user_id (d_receivers data)))] \<and>
    hd (createNewMessageHandler e data fn) =
      CreateNewConversation (new_convo_row ''group'' data)
         (Some (user_id (d_sender data)) # map Some (map user_id (d_receivers data))) \<and>
    (\<forall>created newId.
       createNewConversation e (new_convo_row ''group'' data)
         (Some (user_id (d_sender data)) # map Some (map user_id (d_receivers data))) = Inr created \<and>
       insertMessage e (sent_row data (convo_id created)) = Inr newId \<longrightarrow>
       (\<exists>bm. filter is_emit (createNewMessageHandler e data fn) =
          [Emit (convo_channel (convo_id created)) FIRST_TIME_MESSAGE
             (FirstTimePayload bm (created\<lparr>conversation_name := Some ''New Group''\<rparr>))]
         \<and> bm_id bm = Some newId \<and> bm_conversationId bm = convo_id created))"
proof -
  from assms have "createNewMessageHandler e data fn = createNewGroupMessageHandler e data fn"
    by (simp add: createNewMessageHandler_def)
  moreover have "hd (createNewGroupMessageHandler e data fn) =
      CreateNewConversation (new_convo_row ''group'' data)
         (Some (user_id (d_sender data)) # map Some (map user_id (d_receivers data)))"
    by (simp add: group_run)
  ultimately show ?thesis
    using group_lookups [of e data fn] group_creates [of e data fn] group_emits [of e data _ _ fn]
    by simp
qed

theorem group_send_creates_new_group_witness:
  "2 \<le> length (d_receivers data_group) \<and>
   createNewConversation env_ok \<lparr>convo_type = ''group'', creator_id = 1, classroom_id = 5\<rparr>
     [Some 1, Some 2, Some 3] = Inr (convo_example ''group'' [Some 1, Some 2, Some 3] None) \<and>
   insertMessage env_ok (row_example 7 None) = Inr 100 \<and>
   filter is_lookup (createNewMessageHandler env_ok data_group (FnFunction SenderAck)) = [] \<and>
   filter is_create (createNewMessageHandler env_ok data_group (FnFunction SenderAck)) =
     [CreateNewConversation \<lparr>convo_type = ''group'', creator_id = 1, classroom_id = 5\<rparr>
        [Some 1, Some 2, Some 3]] \<and>
   (\<exists>bm. filter is_emit (createNewMessageHandler env_ok data_group (FnFunction SenderAck)) =
      [Emit ''convo#7'' FIRST_TIME_MESSAGE
         (FirstTimePayload bm (convo_example ''group'' [Some 1, Some 2, Some 3] (Some ''New Group'')))]
      \<and> bm_id bm = Some 100)"
proof -
  have many: "2 \<le> length (d_receivers data_group)"
    by (simp add: data_group_def)
  have row: "new_convo_row ''group'' data_group =
      \<lparr>convo_type = ''group'', creator_id = 1, classroom_id = 5\<rparr>"
    and ids: "Some (user_id (d_sender data_group)) # map Some (map user_id (d_receivers data_group))
      = [Some 1, Some 2, Some 3]"
    by (simp_all add: term_defs example_defs)
  have created: "createNewConversation env_ok \<lparr>convo_type = ''group'', creator_id = 1, classroom_id = 5\<rparr>
      [Some 1, Some 2, Some 3] = Inr (convo_example ''group'' [Some 1, Some 2, Some 3] None)"
    by (simp add: example_defs)
  have stored: "insertMessage env_ok
      (sent_row data_group (convo_id (convo_example ''group'' [Some 1, Some 2, Some 3] None))) = Inr 100"
    and stored': "insertMessage env_ok (row_example 7 None) = Inr 100"
    by (simp_all add: env_ok_def)
  have channel: "convo_channel (convo_id (convo_example ''group'' [Some 1, Some 2, Some 3] None))
      = ''convo#7''"
    by (simp add: convo_example_def convo_channel_def show_nat.simps digit_char_def)
  have named: "convo_example ''group'' [Some 1, Some 2, Some 3] None
        \<lparr>conversation_name := Some ''New Group''\<rparr> =
      convo_example ''group'' [Some 1, Some 2, Some 3] (Some ''New Group'')"
    by (simp add: convo_example_def)
  note run = group_send_creates_new_group [OF many, of env_ok "FnFunction SenderAck",
      unfolded row ids]
  from run created stored
  have "\<exists>bm. filter is_emit (createNewMessageHandler env_ok data_group (FnFunction SenderAck)) =
      [Emit (convo_channel (convo_id (convo_example ''group'' [Some 1, Some 2, Some 3] None)))
         FIRST_TIME_MESSAGE
         (FirstTimePayload bm (convo_example ''group'' [Some 1, Some 2, Some 3] None
            \<lparr>conversation_name := Some ''New Group''\<rparr>))]
      \<and> bm_id bm = Some 100 \<and>
        bm_conversationId bm = convo_id (convo_example ''group'' [Some 1, Some 2, Some 3] None)"
    by blast
  then have "\<exists>bm. filter is_emit (createNewMessageHandler env_ok data_group (FnFunction SenderAck)) =
      [Emit ''convo#7'' FIRST_TIME_MESSAGE
         (FirstTimePayload bm (convo_example ''group'' [Some 1, Some 2, Some 3] (Some ''New Group'')))]
      \<and> bm_id bm = Some 100"
    unfolding channel named by blast
  with run many created stored' show ?thesis
    by blast
qed

section \<open>A send to a pair with a conversation\<close>






section \<open>No receivers\<close>

text \<open>
  C10. With an empty receivers list \<^verbatim>\<open>createNewMessageHandler\<close> runs the group handler.
  Its first step creates a conversation of type group whose only participant is the
  sender. When the creation and the insertion of the message resolve, the message is
  inserted, it is broadcast once with the conversation named \<open>New Group\<close>, and no callback
  is called with an error.
\<close>

theorem empty_receivers_take_group_path:
  assumes "d_receivers data = []"
  shows "createNewMessageHandler e data fn = createNewGroupMessageHandler e data fn \<and>
    hd (createNewMessageHandler e data fn) =
      CreateNewConversation (new_convo_row ''group'' data) [Some (user_id (d_sender data))] \<and>
    (\<forall>created newId.
       createNewConversation e (new_convo_row ''group'' data) [Some (user_id (d_sender data))]
         = Inr created \<and>
       insertMessage e (sent_row data (convo_id created)) = Inr newId \<longrightarrow>
       InsertMessage (sent_row data (convo_id created)) \<in> set (createNewMessageHandler e data fn) \<and>
       (\<exists>bm. filter is_emit (createNewMessageHandler e data fn) =
          [Emit (convo_channel (convo_id created)) FIRST_TIME_MESSAGE
             (FirstTimePayload bm (created\<lparr>conversation_name := Some ''New Group''\<rparr>))]
         \<and> bm_id bm = Some newId) \<and>
       (\<forall>cb err m. Called cb (Some err) m \<notin> set (createNewMessageHandler e data fn)))"
proof -
  from assms have disp: "createNewMessageHandler e data fn = createNewGroupMessageHandler e data fn"
    by (simp add: createNewMessageHandler_def)
  have first: "hd (createNewGroupMessageHandler e data fn) =
      CreateNewConversation (new_convo_row ''group'' data) [Some (user_id (d_sender data))]"
    using assms by (simp add: group_run)
  have ok: "InsertMessage (sent_row data (convo_id created)) \<in> set (createNewGroupMessageHandler e data fn) \<and>
       (\<exists>bm. filter is_emit (createNewGroupMessageHandler e data fn) =
          [Emit (convo_channel (convo_id created)) FIRST_TIME_MESSAGE
             (FirstTimePayload bm (created\<lparr>conversation_name := Some ''New Group''\<rparr>))]
         \<and> bm_id bm = Some newId) \<and>
       (\<forall>cb err m. Called cb (Some err) m \<notin> set (createNewGroupMessageHandler e data fn))"
    if "createNewConversation e (new_convo_row ''group'' data) [Some (user_id (d_sender data))]
         = Inr created"
      and "insertMessage e (sent_row data (convo_id created)) = Inr newId"
    for created newId
    using that assms
    by (auto simp: group_run call_fn_def join_all_def split: fn_arg.splits)
  from disp first ok show ?thesis by simp
qed

theorem empty_receivers_take_group_path_witness:
  "d_receivers data_empty = [] \<and>
   createNewConversation env_ok \<lparr>convo_type = ''group'', creator_id = 1, classroom_id = 5\<rparr> [Some 1]
     = Inr (convo_example ''group'' [Some 1] None) \<and>
   insertMessage env_ok (row_example 7 None) = Inr 100 \<and>
   createNewMessageHandler env_ok data_empty (FnFunction SenderAck) =
     createNewGroupMessageHandler env_ok data_empty (FnFunction SenderAck) \<and>
   hd (createNewMessageHandler env_ok data_empty (FnFunction SenderAck)) =
     CreateNewConversation \<lparr>convo_type = ''group'', creator_id = 1, classroom_id = 5\<rparr> [Some 1] \<and>
   InsertMessage (row_example 7 None) \<in>
     set (createNewMessageHandler env_ok data_empty (FnFunction SenderAck)) \<and>
   (\<exists>bm. filter is_emit (createNewMessageHandler env_ok data_empty (FnFunction SenderAck)) =
      [Emit ''convo#7'' FIRST_TIME_MESSAGE
         (FirstTimePayload bm (convo_example ''group'' [Some 1] (Some ''New Group'')))]
      \<and> bm_id bm = Some 100)"
proof -
  have none: "d_receivers data_empty = []"
    by (simp add: data_empty_def)
  have row: "new_convo_row ''group'' data_empty =
      \<lparr>convo_type = ''group'', creator_id = 1, classroom_id = 5\<rparr>"
    and ids: "[Some (user_id (d_sender data_empty))] = [Some 1]"
    by (simp_all add: term_defs example_defs)
  have created: "createNewConversation env_ok \<lparr>convo_type = ''group'', creator_id = 1, classroom_id = 5\<rparr>
      [Some 1] = Inr (convo_example ''group'' [Some 1] None)"
    by (simp add: example_defs)
  have sent: "sent_row data_empty (convo_id (convo_example ''group'' [Some 1] None)) = row_example 7 None"
    by (simp add: term_defs example_defs js_or_def)
  have stored: "insertMessage env_ok
      (sent_row data_empty (convo_id (convo_example ''group'' [Some 1] None))) = Inr 100"
    and stored': "insertMessage env_ok (row_example 7 None) = Inr 100"
    by (simp_all add: env_ok_def)
  have channel: "convo_channel (convo_id (convo_example ''group'' [Some 1] None)) = ''convo#7''"
    by (simp add: convo_example_def convo_channel_def show_nat.simps digit_char_def)
  have named: "convo_example ''group'' [Some 1] None\<lparr>conversation_name := Some ''New Group''\<rparr> =
      convo_example ''group'' [Some 1] (Some ''New Group'')"
    by (simp add: convo_example_def)
  note run = empty_receivers_take_group_path [OF none, of env_ok "FnFunction SenderAck",
      unfolded row ids]
  from run created stored
  have "InsertMessage (sent_row data_empty (convo_id (convo_example ''group'' [Some 1] None))) \<in>
      set (createNewMessageHandler env_ok data_empty (FnFunction SenderAck)) \<and>
    (\<exists>bm. filter is_emit (createNewMessageHandler env_ok data_empty (FnFunction SenderAck)) =
      [Emit (convo_channel (convo_id (convo_example ''group'' [Some 1] None))) FIRST_TIME_MESSAGE
         (FirstTimePayload bm (convo_example ''group'' [Some 1] None
            \<lparr>conversation_name := Some ''New Group''\<rparr>))]
      \<and> bm_id bm = Some 100)"
    by blast
  then have "InsertMessage (row_example 7 None) \<in>
      set (createNewMessageHandler env_ok data_empty (FnFunction SenderAck)) \<and>
    (\<exists>bm. filter is_emit (createNewMessageHandler env_ok data_empty (FnFunction SenderAck)) =
      [Emit ''convo#7'' FIRST_TIME_MESSAGE
         (FirstTimePayload bm (convo_example ''group'' [Some 1] (Some ''New Group'')))]
      \<and> bm_id bm = Some 100)"
    unfolding sent channel named by blast
  with run none created stored' show ?thesis
    by blast
qed

section \<open>The callback on the delegated path\<close>

text \<open>
  When a conversation exists, the single handler calls \<^verbatim>\<open>_newMessageHandler\<close> without
  its own \<^verbatim>\<open>fn\<close>. Whatever the services do, the sender's callback is never called on
  that path; the calls go to the default function.
\<close>

lemma existing_default_callback:
  "Called cb err m \<in> set (newMessageHandler e msg FnUndefined) \<Longrightarrow> cb = DefaultNoop"
  by (auto simp: newMessageHandler_def call_fn_def Let_def split: option.splits sum.splits)

lemma delegated_run_never_calls_sender:
  assumes "lookup_result e data = Inr (Some convoId)"
  shows "Called SenderAck err m \<notin> set (createNewSingleMessageHandler e data fn)"
proof
  assume "Called SenderAck err m \<in> set (createNewSingleMessageHandler e data fn)"
  then have "Called SenderAck err m \<in>
      set (newMessageHandler e (delegated_message data convoId) FnUndefined)"
    by (simp add: single_existing [OF assms] lookup_call_def)
  from existing_default_callback [OF this] show False
    by simp
qed

text \<open>
  C2. Sender A sends to the single receiver B, the pair has conversation 9, the sender
  supplies a callback, and \<^verbatim>\<open>insertMessage\<close> rejects. The run calls only the default
  function: the sender's callback receives neither the provisional message nor the error.
\<close>

theorem delegation_drops_sender_callback:
  "createNewMessageHandler env_known_insert_rejects data_single (FnFunction SenderAck) =
     [GetTwoUsersConvoId 1 (Some 2) 5,
      Called DefaultNoop None (Some (bm_example 9 (Some photo) None)),
      InsertFile photo,
      InsertMessage (row_example 9 (Some 40)),
      Called DefaultNoop (Some DefaultError) None]"
  by (simp add: handler_defs example_defs)

section \<open>Attachments on the new-conversation paths\<close>

text \<open>
  C3. A send with an attachment that has no id yet, to a receiver without a conversation
  and to a group. Neither run calls \<^verbatim>\<open>insertFile\<close>: the message row has no attachment
  id and the broadcast attachment is the inbound one. On the existing-conversation path
  the same message stores the file first and uses its id (\<open>example_direct_run\<close>).
\<close>

theorem new_conversation_skips_attachment:
  "createNewMessageHandler env_ok data_single (FnFunction SenderAck) =
     [GetTwoUsersConvoId 1 (Some 2) 5,
      CreateNewConversation \<lparr>convo_type = ''single'', creator_id = 1, classroom_id = 5\<rparr>
        [Some 1, Some 2],
      NspIn ''user#1'', Join 11 ''convo#7'',
      NspIn ''user#2'', Join 21 ''convo#7'', Join 22 ''convo#7'',
      Called SenderAck None (Some (bm_example 7 (Some photo) None)),
      InsertMessage (row_example 7 None),
      Emit ''user#1'' FIRST_TIME_MESSAGE
        (FirstTimePayload (bm_example 7 (Some photo) (Some 100))
           (convo_example ''single'' [Some 1, Some 2] (Some ''B''))),
      Emit ''user#2'' FIRST_TIME_MESSAGE
        (FirstTimePayload (bm_example 7 (Some photo) (Some 100))
           (convo_example ''single'' [Some 1, Some 2] (Some ''A'')))] \<and>
   createNewMessageHandler env_ok data_group (FnFunction SenderAck) =
     [CreateNewConversation \<lparr>convo_type = ''group'', creator_id = 1, classroom_id = 5\<rparr>
        [Some 1, Some 2, Some 3],
      NspIn ''user#1'', Join 11 ''convo#7'',
      NspIn ''user#2'', Join 21 ''convo#7'', Join 22 ''convo#7'',
      NspIn ''user#3'',
      Called SenderAck None (Some (bm_example 7 (Some photo) None)),
      InsertMessage (row_example 7 None),
      Emit ''convo#7'' FIRST_TIME_MESSAGE
        (FirstTimePayload (bm_example 7 (Some photo) (Some 100))
           (convo_example ''group'' [Some 1, Some 2, Some 3] (Some ''New Group'')))] \<and>
   att_id photo = None"
  by (simp add: handler_defs example_defs)

section \<open>Rejections\<close>

text \<open>
  Where a handler holds the callback, a rejection of \<^verbatim>\<open>insertFile\<close> or
  \<^verbatim>\<open>insertMessage\<close> ends the run with the callback called with the one error object,
  after the earlier call with the provisional message, and nothing is broadcast.
\<close>

lemma direct_rejection_reported:
  assumes "(\<exists>a err. m_attachment msg = Some a \<and> insertFile e a = Inl err) \<or>
           (\<forall>row. \<exists>err. insertMessage e row = Inl err)"
  shows "filter is_emit (newMessageHandler e msg (FnFunction cb)) = [] \<and>
    (\<exists>bm. hd (newMessageHandler e msg (FnFunction cb)) = Called cb None (Some bm)) \<and>
    last (newMessageHandler e msg (FnFunction cb)) = Called cb (Some DefaultError) None"
proof (cases "m_attachment msg")
  case None
  with assms have rejects: "\<forall>row. \<exists>err. insertMessage e row = Inl err"
    by simp
  show ?thesis
    using None rejects [THEN spec, of "\<lparr> sender_id = user_id (m_sender msg),
        conversation_id = m_conversationId msg,
        message = js_or (m_message msg) (m_messageText msg),
        message_text = m_messageText msg, attachment_id = None \<rparr>"]
    by (auto simp: newMessageHandler_def call_fn_def Let_def)
next
  case (Some a)
  show ?thesis
  proof (cases "insertFile e a")
    case (Inl err)
    with Some show ?thesis
      by (simp add: newMessageHandler_def call_fn_def Let_def)
  next
    case (Inr fileId)
    with Some assms have rejects: "\<forall>row. \<exists>err. insertMessage e row = Inl err"
      by simp
    show ?thesis
      using Some Inr rejects [THEN spec, of "\<lparr> sender_id = user_id (m_sender msg),
          conversation_id = m_conversationId msg,
          message = js_or (m_message msg) (m_messageText msg),
          message_text = m_messageText msg, attachment_id = Some fileId \<rparr>"]
      by (auto simp: newMessageHandler_def call_fn_def Let_def)
  qed
qed

lemma new_single_rejection_reported:
  assumes "d_receivers data = r # others" and "lookup_result e data = Inr None"
    and "createNewConversation e (new_convo_row ''single'' data)
        [Some (user_id (d_sender data)), Some (user_id r)] = Inr newConvo"
    and "insertMessage e (sent_row data (convo_id newConvo)) = Inl err"
  shows "filter is_emit (createNewSingleMessageHandler e data (FnFunction cb)) = [] \<and>
    last (createNewSingleMessageHandler e data (FnFunction cb)) = Called cb (Some DefaultError) None"
  using assms(3,4) by (simp add: single_new [OF assms(1,2)] call_fn_def)

lemma group_rejection_reported:
  assumes "createNewConversation e (new_convo_row ''group'' data)
        (Some (user_id (d_sender data)) # map Some (map user_id (d_receivers data))) = Inr created"
    and "insertMessage e (sent_row data (convo_id created)) = Inl err"
  shows "filter is_emit (createNewGroupMessageHandler e data (FnFunction cb)) = [] \<and>
    last (createNewGroupMessageHandler e data (FnFunction cb)) = Called cb (Some DefaultError) None"
  using assms by (simp add: group_run call_fn_def)

text \<open>
  C5. Sender A sends to the single receiver B, the pair has conversation 9, the sender
  supplies a callback, and \<^verbatim>\<open>insertFile\<close> rejects. Nothing is broadcast, but the error
  object goes to the default function: the sender's callback is not called at all.
\<close>

theorem delegated_rejection_not_reported:
  "createNewMessageHandler env_known_file_rejects data_single (FnFunction SenderAck) =
     [GetTwoUsersConvoId 1 (Some 2) 5,
      Called DefaultNoop None (Some (bm_example 9 (Some photo) None)),
      InsertFile photo,
      Called DefaultNoop (Some DefaultError) None]"
  by (simp add: handler_defs example_defs)

end
